theory Spec2Isabelle
  imports Main "HOL-Library.AList"
begin

section \<open>The dependency monitor: data model\<close>

text \<open>
  The script \<^verbatim>\<open>check-dependencies.js\<close> polls a list of repositories, compares the
  versions declared in each \<^verbatim>\<open>package.json\<close> with the npm registry, collects the open
  Dependabot alerts, asks an AI endpoint for a summary and mails the result.

  JavaScript strings are modelled as \<^typ>\<open>string\<close>. A plain object whose keys matter
  (the two dependency groups of a manifest) is an association list in the order
  \<^verbatim>\<open>Object.entries\<close> enumerates it. The model keeps insertion order; the engine's rule that
  keys spelled like array indices are enumerated first changes the order only, and the
  general statements below are about membership, counts and distinctness, not about the
  order of the entries. A dependency group is an object
  or absent, and its values are strings, as in a manifest that maps names to version
  ranges.
\<close>

type_synonym 'v obj = "(string \<times> 'v) list"

record package_json =
  dependencies :: "string obj option"
  devDependencies :: "string obj option"

text \<open>
  What the registry document of a package holds, as far as the script reads it. The
  latest tag of a document with a \<^verbatim>\<open>dist-tags\<close> object is taken to be a string.
\<close>

record registry_pkg =
  dist_tags_latest :: string
  pkg_description :: "string option"
  pkg_homepage :: "string option"

text \<open>The object \<^verbatim>\<open>getNpmPackageInfo\<close> resolves with.\<close>

record npm_info =
  info_latest :: string
  info_description :: "string option"
  info_homepage :: "string option"

text \<open>One element of the \<^verbatim>\<open>outdated\<close> array.\<close>

record outdated_entry =
  package :: string
  current :: string
  latest :: string
  description :: "string option"

datatype severity = Critical | High | Medium | Low

record security_alert =
  alert_package :: string
  alert_severity :: severity
  alert_summary :: string
  alert_cve :: "string option"
  alert_vulnerableVersionRange :: string
  alert_firstPatchedVersion :: "string option"
  alert_url :: string

text \<open>
  The object \<^verbatim>\<open>checkOutdatedPackages\<close> returns, and its extension by
  \<^verbatim>\<open>{...outdated, securityAlerts: securityAlerts}\<close> in \<^verbatim>\<open>main\<close>.
\<close>

record outdated_report =
  repo :: string
  outdated :: "outdated_entry list"
  totalDependencies :: nat

record repo_report = outdated_report +
  securityAlerts :: "security_alert list"

subsection \<open>Errors, promises and HTTP exchanges\<close>

datatype js_error =
    GitHubApiError nat
  | ClaudeApiError nat
  | NetworkError string
  | ParseError
  | TypeError
  | SendMailError string

text \<open>
  How an awaited call ends. \<open>Rejected\<close> is a rejected promise, which \<^verbatim>\<open>try/catch\<close> and
  \<^verbatim>\<open>main().catch\<close> see. \<open>Uncaught\<close> is an exception thrown inside a response callback
  (\<^verbatim>\<open>JSON.parse\<close> of the body, or a field read on the parsed value): no promise carries
  it, no \<^verbatim>\<open>catch\<close> sees it, and the process ends with status 1. \<open>Exited\<close> is
  \<^verbatim>\<open>process.exit\<close>.
\<close>

datatype 'a outcome = Resolved 'a | Rejected js_error | Uncaught js_error | Exited nat

text \<open>
  One HTTP exchange. The body of a response is \<open>Usable\<close> when the statements the
  response callback runs on it (parsing and field reads) do not throw.
\<close>

datatype 'b body = Unusable | Usable 'b

datatype 'b http = ConnectionError string | Response nat "'b body"

definition await :: "'a outcome \<Rightarrow> ('a \<Rightarrow> 'b outcome) \<Rightarrow> 'b outcome" where
  "await p k =
     (case p of
        Resolved x \<Rightarrow> k x
      | Rejected e \<Rightarrow> Rejected e
      | Uncaught e \<Rightarrow> Uncaught e
      | Exited c \<Rightarrow> Exited c)"

section \<open>The registry client\<close>

text \<open>
  \<^verbatim>\<open>getNpmPackageInfo(packageName)\<close>: the registry is the exchange each package name
  gets. Status 200 resolves with the three fields read from the parsed body, every other
  status and every connection error resolves with \<^verbatim>\<open>null\<close>. The promise's \<^verbatim>\<open>reject\<close> is
  never called.
\<close>

type_synonym registry = "string \<Rightarrow> registry_pkg http"

definition getNpmPackageInfo :: "registry \<Rightarrow> string \<Rightarrow> npm_info option outcome" where
  "getNpmPackageInfo reg packageName =
     (case reg packageName of
        ConnectionError e \<Rightarrow> Resolved None
      | Response statusCode b \<Rightarrow>
          if statusCode = 200 then
            (case b of
               Usable pkg \<Rightarrow>
                 Resolved (Some \<lparr>info_latest = dist_tags_latest pkg,
                                 info_description = pkg_description pkg,
                                 info_homepage = pkg_homepage pkg\<rparr>)
             | Unusable \<Rightarrow> Uncaught ParseError)
          else Resolved None)"

section \<open>The comparator\<close>

text \<open>\<^verbatim>\<open>currentVersion.replace(/^[\^~]/, "")\<close>: one leading caret or tilde is removed.\<close>

definition cleanVersion :: "string \<Rightarrow> string" where
  "cleanVersion currentVersion =
     (case currentVersion of
        [] \<Rightarrow> []
      | c # cs \<Rightarrow> if c = CHR ''^'' \<or> c = CHR ''~'' then cs else c # cs)"

text \<open>
  Object spread into a target: each own entry of the source is assigned in turn, a key
  already present keeps its place and takes the new value, a new key goes last. Spreading
  \<^verbatim>\<open>undefined\<close> adds nothing.
\<close>

definition spread :: "'v obj \<Rightarrow> 'v obj option \<Rightarrow> 'v obj" where
  "spread target src =
     (case src of
        None \<Rightarrow> target
      | Some ps \<Rightarrow> foldl (\<lambda>acc (k, v). AList.update k v acc) target ps)"

text \<open>\<^verbatim>\<open>{ ...packageJson.dependencies, ...packageJson.devDependencies }\<close>\<close>

definition mergedDependencies :: "package_json \<Rightarrow> string obj" where
  "mergedDependencies packageJson =
     spread (spread [] (dependencies packageJson)) (devDependencies packageJson)"

text \<open>The \<^verbatim>\<open>for ... of Object.entries(dependencies)\<close> loop, with the array it pushes to.\<close>

fun outdated_loop :: "registry \<Rightarrow> string obj \<Rightarrow> outdated_entry list \<Rightarrow> outdated_entry list outcome" where
  "outdated_loop reg [] acc = Resolved acc"
| "outdated_loop reg ((name, currentVersion) # rest) acc =
     (case getNpmPackageInfo reg name of
        Resolved info \<Rightarrow>
          (case info of
             None \<Rightarrow> outdated_loop reg rest acc
           | Some i \<Rightarrow>
               if info_latest i \<noteq> cleanVersion currentVersion then
                 outdated_loop reg rest
                   (acc @ [\<lparr>package = name, current = currentVersion,
                            latest = info_latest i, description = info_description i\<rparr>])
               else outdated_loop reg rest acc)
      | Rejected e \<Rightarrow> Rejected e
      | Uncaught e \<Rightarrow> Uncaught e
      | Exited c \<Rightarrow> Exited c)"

definition checkOutdatedPackages :: "registry \<Rightarrow> package_json \<Rightarrow> string \<Rightarrow> outdated_report outcome" where
  "checkOutdatedPackages reg packageJson repoName =
     (let deps = mergedDependencies packageJson in
      await (outdated_loop reg deps []) (\<lambda>found.
        Resolved \<lparr>repo = repoName, outdated = found, totalDependencies = length deps\<rparr>))"

section \<open>Events, messages and services\<close>

text \<open>
  What the process leaves behind, in order: console lines that report a failure, each
  call of \<^verbatim>\<open>analyzeWithClaude\<close> and each message handed to \<^verbatim>\<open>transporter.sendMail\<close>.
  Progress lines of the console are not recorded.
\<close>

datatype log_line =
    CouldNotFetchPackageJson string js_error
  | CouldNotFetchSecurityAlerts string js_error
  | TokenNotSet
  | TopLevelError js_error

text \<open>
  The subject lines of \<^verbatim>\<open>main\<close> and \<^verbatim>\<open>sendEmail\<close>, by their template and the
  number put into it: "Dependency Check: All Secure & Up To Date",
  "SECURITY ALERT: n Critical Vulnerabilities",
  "Security Update: n Vulnerabilities Found", "n Package Updates Available",
  "Monthly Dependency Report"; and of the earlier revision,
  "Dependency Check: All Up To Date" and
  "Dependency Update Report - n packages need attention".
\<close>

datatype subject =
    AllSecureUpToDate
  | SecurityAlert nat
  | SecurityUpdate nat
  | PackageUpdates nat
  | MonthlyReport
  | AllUpToDate
  | UpdateReport nat

text \<open>
  A message body is the short text, or the HTML report built from the analysis and the
  results (the markup itself is not modelled).
\<close>

datatype 'r mail_body = ShortNotice | FullReport string "'r list"

record 'r mail =
  mail_from :: "string option"
  mail_to :: "string option"
  mail_subject :: subject
  mail_content :: "'r mail_body"

datatype 'r event =
    ConsoleLog log_line
  | ConsoleError log_line
  | AnalyzeCall "'r list"
  | SendMail "'r mail"

type_synonym ('r, 'a) io = "'r event list \<times> 'a outcome"

text \<open>Sequencing of two awaited steps that leave events behind.\<close>

definition andThen :: "('r, 'a) io \<Rightarrow> ('a \<Rightarrow> ('r, 'b) io) \<Rightarrow> ('r, 'b) io" where
  "andThen m k =
     (case m of
        (t, Resolved x) \<Rightarrow> (case k x of (t', r) \<Rightarrow> (t @ t', r))
      | (t, Rejected e) \<Rightarrow> (t, Rejected e)
      | (t, Uncaught e) \<Rightarrow> (t, Uncaught e)
      | (t, Exited c) \<Rightarrow> (t, Exited c))"

text \<open>
  The result of evaluating
  \<^verbatim>\<open>JSON.parse(Buffer.from(content.content, "base64").toString())\<close> on the parsed body
  of the contents endpoint: it throws, or gives a falsy value, or gives the manifest.
\<close>

datatype manifest_decode = DecodeThrows | DecodesToFalsy | DecodesTo package_json

text \<open>
  The parsed body of the alerts endpoint: falsy, or a value on which
  \<^verbatim>\<open>alerts.map(...)\<close> with its field reads throws, or the array of alerts (given as the
  objects the mapping builds).
\<close>

datatype alerts_json = AlertsFalsy | AlertsMapThrows | AlertsArray "security_alert list"

text \<open>
  The services the run talks to, over the type of the reports of a run. The contents
  and alerts endpoints take the token and the repository. The registry is indexed by the
  repository under check as well, since each repository is checked at its own time. The
  AI endpoint takes the API key and the results the prompt is built from, the mail relay
  the account and password of the transporter and the message.
\<close>

record 'r world =
  github_contents :: "string \<Rightarrow> string \<Rightarrow> manifest_decode http"
  github_alerts :: "string \<Rightarrow> string \<Rightarrow> alerts_json http"
  npm_registry :: "string \<Rightarrow> registry"
  claude_api :: "string \<Rightarrow> 'r list \<Rightarrow> string http"
  smtp :: "string option \<Rightarrow> string option \<Rightarrow> 'r mail \<Rightarrow> js_error option"

section \<open>The repository client\<close>

text \<open>\<^verbatim>\<open>githubRequest(path, token)\<close>, given the exchange the path and token get.\<close>

definition githubRequest :: "'b http \<Rightarrow> 'b option outcome" where
  "githubRequest exchange =
     (case exchange of
        ConnectionError e \<Rightarrow> Rejected (NetworkError e)
      | Response statusCode b \<Rightarrow>
          if statusCode = 200 then
            (case b of Usable v \<Rightarrow> Resolved (Some v) | Unusable \<Rightarrow> Uncaught ParseError)
          else if statusCode = 404 then Resolved None
          else Rejected (GitHubApiError statusCode))"

definition getSecurityAlerts :: "'r world \<Rightarrow> string \<Rightarrow> string \<Rightarrow> ('r, security_alert list) io" where
  "getSecurityAlerts w repoName token =
     (case githubRequest (github_alerts w token repoName) of
        Resolved alerts \<Rightarrow>
          (case alerts of
             None \<Rightarrow> ([], Resolved [])
           | Some AlertsFalsy \<Rightarrow> ([], Resolved [])
           | Some AlertsMapThrows \<Rightarrow>
               ([ConsoleLog (CouldNotFetchSecurityAlerts repoName TypeError)], Resolved [])
           | Some (AlertsArray as) \<Rightarrow> ([], Resolved as))
      | Rejected e \<Rightarrow> ([ConsoleLog (CouldNotFetchSecurityAlerts repoName e)], Resolved [])
      | Uncaught e \<Rightarrow> ([], Uncaught e)
      | Exited c \<Rightarrow> ([], Exited c))"

text \<open>
  \<^verbatim>\<open>getPackageJson(repo, token)\<close>: reading \<^verbatim>\<open>content.content\<close> of the \<^verbatim>\<open>null\<close> that a 404
  resolves with throws inside the \<^verbatim>\<open>try\<close>, like a failed decode.
\<close>

definition getPackageJson :: "'r world \<Rightarrow> string \<Rightarrow> string \<Rightarrow> ('r, package_json option) io" where
  "getPackageJson w repoName token =
     (case githubRequest (github_contents w token repoName) of
        Resolved content \<Rightarrow>
          (case content of
             None \<Rightarrow> ([ConsoleLog (CouldNotFetchPackageJson repoName TypeError)], Resolved None)
           | Some DecodeThrows \<Rightarrow>
               ([ConsoleLog (CouldNotFetchPackageJson repoName ParseError)], Resolved None)
           | Some DecodesToFalsy \<Rightarrow> ([], Resolved None)
           | Some (DecodesTo packageJson) \<Rightarrow> ([], Resolved (Some packageJson)))
      | Rejected e \<Rightarrow> ([ConsoleLog (CouldNotFetchPackageJson repoName e)], Resolved None)
      | Uncaught e \<Rightarrow> ([], Uncaught e)
      | Exited c \<Rightarrow> ([], Exited c))"

section \<open>The summarizer and the notifier\<close>

text \<open>
  \<^verbatim>\<open>analyzeWithClaude(results, apiKey)\<close>. With the key undefined \<^verbatim>\<open>https.request\<close> refuses
  the header \<^verbatim>\<open>x-api-key\<close> with a \<^verbatim>\<open>TypeError\<close> thrown inside the promise executor, which
  rejects the promise before anything is sent.
\<close>

definition analyzeWithClaude :: "'r world \<Rightarrow> 'r list \<Rightarrow> string option \<Rightarrow> ('r, string) io" where
  "analyzeWithClaude w results apiKey =
     ([AnalyzeCall results],
      case apiKey of
        None \<Rightarrow> Rejected TypeError
      | Some key \<Rightarrow>
          (case claude_api w key results of
             ConnectionError e \<Rightarrow> Rejected (NetworkError e)
           | Response statusCode b \<Rightarrow>
               if statusCode = 200 then
                 (case b of Usable text \<Rightarrow> Resolved text | Unusable \<Rightarrow> Uncaught ParseError)
               else Rejected (ClaudeApiError statusCode)))"

text \<open>\<^verbatim>\<open>nodemailer.createTransport({service: "gmail", auth: {user, pass}})\<close>\<close>

definition createTransport ::
  "'r world \<Rightarrow> string option \<Rightarrow> string option \<Rightarrow> 'r mail \<Rightarrow> js_error option" where
  "createTransport w user pass = smtp w user pass"

text \<open>\<^verbatim>\<open>transporter.sendMail(mailOptions)\<close>\<close>

definition sendMail :: "('r mail \<Rightarrow> js_error option) \<Rightarrow> 'r mail \<Rightarrow> ('r, unit) io" where
  "sendMail relay m =
     ([SendMail m], case relay m of None \<Rightarrow> Resolved () | Some e \<Rightarrow> Rejected e)"

text \<open>The three totals \<^verbatim>\<open>sendEmail\<close> and \<^verbatim>\<open>main\<close> compute from the results.\<close>

definition criticalSecurityIssues :: "repo_report list \<Rightarrow> security_alert list" where
  "criticalSecurityIssues results =
     concat (map (\<lambda>r. filter (\<lambda>a. alert_severity a = Critical \<or> alert_severity a = High)
                          (securityAlerts r)) results)"

definition totalVulnerabilities :: "repo_report list \<Rightarrow> nat" where
  "totalVulnerabilities results = foldl (\<lambda>sum r. sum + length (securityAlerts r)) 0 results"

definition totalOutdated :: "'a outdated_report_scheme list \<Rightarrow> nat" where
  "totalOutdated results = foldl (\<lambda>sum r. sum + length (outdated r)) 0 results"

text \<open>The subject \<^verbatim>\<open>sendEmail\<close> chooses.\<close>

definition emailSubject :: "repo_report list \<Rightarrow> subject" where
  "emailSubject results =
     (if length (criticalSecurityIssues results) > 0 then
        SecurityAlert (length (criticalSecurityIssues results))
      else if totalVulnerabilities results > 0 then
        SecurityUpdate (totalVulnerabilities results)
      else if totalOutdated results > 0 then
        PackageUpdates (totalOutdated results)
      else MonthlyReport)"

definition sendEmail ::
  "repo_report world \<Rightarrow> string \<Rightarrow> repo_report list \<Rightarrow> string option \<Rightarrow> string option \<Rightarrow> string option
     \<Rightarrow> (repo_report, unit) io" where
  "sendEmail w analysis results gmailUser gmailPassword recipient =
     sendMail (createTransport w gmailUser gmailPassword)
       \<lparr>mail_from = gmailUser, mail_to = recipient, mail_subject = emailSubject results,
        mail_content = FullReport analysis results\<rparr>"

section \<open>The orchestrator\<close>

record env =
  GH_TOKEN :: "string option"
  ANTHROPIC_API_KEY :: "string option"
  GMAIL_USER :: "string option"
  GMAIL_APP_PASSWORD :: "string option"
  RECIPIENT_EMAIL :: "string option"

record config =
  repos :: "string list"

text \<open>The body of the \<^verbatim>\<open>for (const repo of config.repos)\<close> loop: the report it pushes.\<close>

definition check_repo :: "repo_report world \<Rightarrow> string \<Rightarrow> string \<Rightarrow> (repo_report, repo_report) io" where
  "check_repo w token repoName =
     andThen (getPackageJson w repoName token) (\<lambda>packageJson.
     andThen (getSecurityAlerts w repoName token) (\<lambda>alerts.
       case packageJson of
         Some pj \<Rightarrow>
           ([], await (checkOutdatedPackages (npm_registry w repoName) pj repoName) (\<lambda>found.
                  Resolved \<lparr>repo = repo found, outdated = outdated found,
                            totalDependencies = totalDependencies found,
                            securityAlerts = alerts\<rparr>))
       | None \<Rightarrow>
           ([], Resolved \<lparr>repo = repoName, outdated = [], totalDependencies = 0,
                          securityAlerts = alerts\<rparr>)))"

fun repo_loop :: "repo_report world \<Rightarrow> string \<Rightarrow> string list \<Rightarrow> repo_report list \<Rightarrow> (repo_report, repo_report list) io" where
  "repo_loop w token [] results = ([], Resolved results)"
| "repo_loop w token (repoName # rest) results =
     (case check_repo w token repoName of
        (t, Resolved report) \<Rightarrow>
          (case repo_loop w token rest (results @ [report]) of (t', r) \<Rightarrow> (t @ t', r))
      | (t, Rejected e) \<Rightarrow> (t, Rejected e)
      | (t, Uncaught e) \<Rightarrow> (t, Uncaught e)
      | (t, Exited c) \<Rightarrow> (t, Exited c))"

definition main :: "repo_report world \<Rightarrow> env \<Rightarrow> config \<Rightarrow> (repo_report, unit) io" where
  "main w e cfg =
     (case GH_TOKEN e of
        None \<Rightarrow> ([ConsoleError TokenNotSet], Exited 1)
      | Some githubToken \<Rightarrow>
          if githubToken = [] then ([ConsoleError TokenNotSet], Exited 1)
          else
            andThen (repo_loop w githubToken (repos cfg) []) (\<lambda>results.
              if totalVulnerabilities results = 0 \<and> totalOutdated results = 0 then
                sendMail (createTransport w (GMAIL_USER e) (GMAIL_APP_PASSWORD e))
                  \<lparr>mail_from = GMAIL_USER e, mail_to = RECIPIENT_EMAIL e,
                   mail_subject = AllSecureUpToDate, mail_content = ShortNotice\<rparr>
              else
                andThen (analyzeWithClaude w results (ANTHROPIC_API_KEY e)) (\<lambda>analysis.
                  sendEmail w analysis results (GMAIL_USER e) (GMAIL_APP_PASSWORD e)
                    (RECIPIENT_EMAIL e))))"

text \<open>
  The process: \<^verbatim>\<open>main().catch(...)\<close> logs a rejection and exits with 1; an exception no
  promise carries ends the process with 1 as well; otherwise the status is 0.
\<close>

record 'r run_result =
  trace :: "'r event list"
  exit_code :: nat

definition finish :: "('r, unit) io \<Rightarrow> 'r run_result" where
  "finish m =
     (case m of
        (t, Resolved u) \<Rightarrow> \<lparr>trace = t, exit_code = 0\<rparr>
      | (t, Rejected e) \<Rightarrow> \<lparr>trace = t @ [ConsoleError (TopLevelError e)], exit_code = 1\<rparr>
      | (t, Uncaught e) \<Rightarrow> \<lparr>trace = t, exit_code = 1\<rparr>
      | (t, Exited c) \<Rightarrow> \<lparr>trace = t, exit_code = c\<rparr>)"

definition run :: "repo_report world \<Rightarrow> env \<Rightarrow> config \<Rightarrow> repo_report run_result" where
  "run w e cfg = finish (main w e cfg)"

section \<open>The earlier revision\<close>

text \<open>
  The source file also carries the script as it was before the security alerts were
  added (its first 284 lines). \<^verbatim>\<open>getNpmPackageInfo\<close>, \<^verbatim>\<open>checkOutdatedPackages\<close> and the
  request to the AI endpoint are as above; the functions that differ follow. There a 404
  is rejected like any other status, a repository without a manifest pushes nothing, and
  the reports carry no alerts.
\<close>

definition githubRequest_v1 :: "'b http \<Rightarrow> 'b outcome" where
  "githubRequest_v1 exchange =
     (case exchange of
        ConnectionError e \<Rightarrow> Rejected (NetworkError e)
      | Response statusCode b \<Rightarrow>
          if statusCode = 200 then
            (case b of Usable v \<Rightarrow> Resolved v | Unusable \<Rightarrow> Uncaught ParseError)
          else Rejected (GitHubApiError statusCode))"

definition getPackageJson_v1 :: "'r world \<Rightarrow> string \<Rightarrow> string \<Rightarrow> ('r, package_json option) io" where
  "getPackageJson_v1 w repoName token =
     (case githubRequest_v1 (github_contents w token repoName) of
        Resolved content \<Rightarrow>
          (case content of
             DecodeThrows \<Rightarrow>
               ([ConsoleLog (CouldNotFetchPackageJson repoName ParseError)], Resolved None)
           | DecodesToFalsy \<Rightarrow> ([], Resolved None)
           | DecodesTo packageJson \<Rightarrow> ([], Resolved (Some packageJson)))
      | Rejected e \<Rightarrow> ([ConsoleLog (CouldNotFetchPackageJson repoName e)], Resolved None)
      | Uncaught e \<Rightarrow> ([], Uncaught e)
      | Exited c \<Rightarrow> ([], Exited c))"

text \<open>The loop body of the earlier \<^verbatim>\<open>main\<close>: the report it pushes, if it pushes one.\<close>

definition check_repo_v1 ::
  "outdated_report world \<Rightarrow> string \<Rightarrow> string \<Rightarrow> (outdated_report, outdated_report option) io" where
  "check_repo_v1 w token repoName =
     andThen (getPackageJson_v1 w repoName token) (\<lambda>packageJson.
       case packageJson of
         Some pj \<Rightarrow>
           ([], await (checkOutdatedPackages (npm_registry w repoName) pj repoName) (\<lambda>found.
                  Resolved (Some found)))
       | None \<Rightarrow> ([], Resolved None))"

fun repo_loop_v1 ::
  "outdated_report world \<Rightarrow> string \<Rightarrow> string list \<Rightarrow> outdated_report list
     \<Rightarrow> (outdated_report, outdated_report list) io" where
  "repo_loop_v1 w token [] results = ([], Resolved results)"
| "repo_loop_v1 w token (repoName # rest) results =
     (case check_repo_v1 w token repoName of
        (t, Resolved pushed) \<Rightarrow>
          (case repo_loop_v1 w token rest
                  (case pushed of Some report \<Rightarrow> results @ [report] | None \<Rightarrow> results) of
             (t', r) \<Rightarrow> (t @ t', r))
      | (t, Rejected e) \<Rightarrow> (t, Rejected e)
      | (t, Uncaught e) \<Rightarrow> (t, Uncaught e)
      | (t, Exited c) \<Rightarrow> (t, Exited c))"

definition sendEmail_v1 ::
  "outdated_report world \<Rightarrow> string \<Rightarrow> outdated_report list \<Rightarrow> string option \<Rightarrow> string option
     \<Rightarrow> string option \<Rightarrow> (outdated_report, unit) io" where
  "sendEmail_v1 w analysis results gmailUser gmailPassword recipient =
     sendMail (createTransport w gmailUser gmailPassword)
       \<lparr>mail_from = gmailUser, mail_to = recipient,
        mail_subject = UpdateReport (totalOutdated results),
        mail_content = FullReport analysis results\<rparr>"

definition main_v1 :: "outdated_report world \<Rightarrow> env \<Rightarrow> config \<Rightarrow> (outdated_report, unit) io" where
  "main_v1 w e cfg =
     (case GH_TOKEN e of
        None \<Rightarrow> ([ConsoleError TokenNotSet], Exited 1)
      | Some githubToken \<Rightarrow>
          if githubToken = [] then ([ConsoleError TokenNotSet], Exited 1)
          else
            andThen (repo_loop_v1 w githubToken (repos cfg) []) (\<lambda>results.
              if totalOutdated results = 0 then
                sendMail (createTransport w (GMAIL_USER e) (GMAIL_APP_PASSWORD e))
                  \<lparr>mail_from = GMAIL_USER e, mail_to = RECIPIENT_EMAIL e,
                   mail_subject = AllUpToDate, mail_content = ShortNotice\<rparr>
              else
                andThen (analyzeWithClaude w results (ANTHROPIC_API_KEY e)) (\<lambda>analysis.
                  sendEmail_v1 w analysis results (GMAIL_USER e) (GMAIL_APP_PASSWORD e)
                    (RECIPIENT_EMAIL e))))"

definition run_v1 :: "outdated_report world \<Rightarrow> env \<Rightarrow> config \<Rightarrow> outdated_report run_result" where
  "run_v1 w e cfg = finish (main_v1 w e cfg)"

section \<open>Notions the statements use\<close>

text \<open>The entries of a dependency group; an absent group has none.\<close>

definition entries :: "'v obj option \<Rightarrow> 'v obj" where
  "entries g = (case g of None \<Rightarrow> [] | Some ps \<Rightarrow> ps)"

text \<open>A declared version that begins with a caret or a tilde.\<close>

definition startsWithMarker :: "string \<Rightarrow> bool" where
  "startsWithMarker v = (case v of [] \<Rightarrow> False | c # cs \<Rightarrow> c = CHR ''^'' \<or> c = CHR ''~'')"

text \<open>
  The record the comparator keeps for one entry of the merged mapping, if it keeps one:
  registry data exists and its latest version is not the cleaned declared version.
\<close>

fun record_for :: "registry \<Rightarrow> string \<times> string \<Rightarrow> outdated_entry option" where
  "record_for reg (name, currentVersion) =
     (case getNpmPackageInfo reg name of
        Resolved (Some i) \<Rightarrow>
          if info_latest i \<noteq> cleanVersion currentVersion
          then Some \<lparr>package = name, current = currentVersion, latest = info_latest i,
                     description = info_description i\<rparr>
          else None
      | _ \<Rightarrow> None)"

text \<open>An exchange whose response callback throws: status 200 with an unusable body.\<close>

definition crashes :: "'b http \<Rightarrow> bool" where
  "crashes exchange = (exchange = Response 200 Unusable)"

text \<open>
  The mails handed to the relay and the results the summarizer was called with, in
  order; and a trace that holds console lines only.
\<close>

fun mails :: "'r event list \<Rightarrow> 'r mail list" where
  "mails [] = []"
| "mails (SendMail m # evs) = m # mails evs"
| "mails (ev # evs) = mails evs"

fun analyses :: "'r event list \<Rightarrow> 'r list list" where
  "analyses [] = []"
| "analyses (AnalyzeCall rs # evs) = rs # analyses evs"
| "analyses (ev # evs) = analyses evs"

fun console_only :: "'r event list \<Rightarrow> bool" where
  "console_only [] = True"
| "console_only (ConsoleLog l # evs) = console_only evs"
| "console_only (ConsoleError l # evs) = console_only evs"
| "console_only (ev # evs) = False"

text \<open>
  The two messages \<^verbatim>\<open>main\<close> and \<^verbatim>\<open>sendEmail\<close> build, and the transporter both create
  from the environment.
\<close>

definition relay :: "'r world \<Rightarrow> env \<Rightarrow> 'r mail \<Rightarrow> js_error option" where
  "relay w e = createTransport w (GMAIL_USER e) (GMAIL_APP_PASSWORD e)"

definition short_notice :: "env \<Rightarrow> repo_report mail" where
  "short_notice e =
     \<lparr>mail_from = GMAIL_USER e, mail_to = RECIPIENT_EMAIL e,
      mail_subject = AllSecureUpToDate, mail_content = ShortNotice\<rparr>"

definition full_report :: "env \<Rightarrow> string \<Rightarrow> repo_report list \<Rightarrow> repo_report mail" where
  "full_report e analysis results =
     \<lparr>mail_from = GMAIL_USER e, mail_to = RECIPIENT_EMAIL e,
      mail_subject = emailSubject results, mail_content = FullReport analysis results\<rparr>"

text \<open>
  A manifest fetch that fails inside the \<^verbatim>\<open>try\<close> of \<^verbatim>\<open>getPackageJson\<close>: a connection
  error, any status but 200 (a 404 included), or a 200 whose content does not decode
  and parse. (A content that parses to a falsy value is returned as it is, without a
  log line; a 200 whose own body is unusable throws outside the \<^verbatim>\<open>try\<close>.)
\<close>

definition manifest_fetch_fails :: "manifest_decode http \<Rightarrow> bool" where
  "manifest_fetch_fails exchange =
     (case exchange of
        ConnectionError e \<Rightarrow> True
      | Response statusCode b \<Rightarrow> statusCode \<noteq> 200 \<or> b = Usable DecodeThrows)"

text \<open>
  The conditions a subject can stand for, the condition each subject announces, and the
  most severe condition of a set of reports: once in the words of the specification
  (\<open>spec_condition\<close>, whose first tier is severity critical), once as the script
  ranks them (\<open>found_condition\<close>, whose first tier is severity critical or high).
\<close>

datatype condition = CriticalVulnerabilities | AnyVulnerabilities | OutdatedOnly | NothingFound

fun subject_condition :: "subject \<Rightarrow> condition" where
  "subject_condition (SecurityAlert n) = CriticalVulnerabilities"
| "subject_condition (SecurityUpdate n) = AnyVulnerabilities"
| "subject_condition (PackageUpdates n) = OutdatedOnly"
| "subject_condition (UpdateReport n) = OutdatedOnly"
| "subject_condition MonthlyReport = NothingFound"
| "subject_condition AllSecureUpToDate = NothingFound"
| "subject_condition AllUpToDate = NothingFound"

definition has_alert :: "(security_alert \<Rightarrow> bool) \<Rightarrow> repo_report list \<Rightarrow> bool" where
  "has_alert P results = list_ex (\<lambda>r. list_ex P (securityAlerts r)) results"

definition has_outdated :: "repo_report list \<Rightarrow> bool" where
  "has_outdated results = list_ex (\<lambda>r. outdated r \<noteq> []) results"

definition spec_condition :: "repo_report list \<Rightarrow> condition" where
  "spec_condition results =
     (if has_alert (\<lambda>a. alert_severity a = Critical) results then CriticalVulnerabilities
      else if has_alert (\<lambda>a. True) results then AnyVulnerabilities
      else if has_outdated results then OutdatedOnly
      else NothingFound)"

definition found_condition :: "repo_report list \<Rightarrow> condition" where
  "found_condition results =
     (if has_alert (\<lambda>a. alert_severity a = Critical \<or> alert_severity a = High) results
      then CriticalVulnerabilities
      else if has_alert (\<lambda>a. True) results then AnyVulnerabilities
      else if has_outdated results then OutdatedOnly
      else NothingFound)"


section \<open>Sample inputs\<close>

definition one_dep :: "string \<Rightarrow> string \<Rightarrow> package_json" where
  "one_dep name v = \<lparr>dependencies = Some [(name, v)], devDependencies = None\<rparr>"

definition registry_latest :: "string \<Rightarrow> registry" where
  "registry_latest v =
     (\<lambda>name. Response 200 (Usable \<lparr>dist_tags_latest = v, pkg_description = None,
                                     pkg_homepage = None\<rparr>))"

definition two_groups :: package_json where
  "two_groups =
     \<lparr>dependencies = Some [(''left-pad'', ''^1.0.0''), (''jest'', ''^28.0.0'')],
      devDependencies = Some [(''jest'', ''^29.0.0''), (''eslint'', ''~8.1.0'')]\<rparr>"

definition registry_table :: "(string \<times> string) list \<Rightarrow> registry" where
  "registry_table tab =
     (\<lambda>name. case map_of tab name of
        None \<Rightarrow> Response 404 Unusable
      | Some v \<Rightarrow> Response 200 (Usable \<lparr>dist_tags_latest = v, pkg_description = None,
                                           pkg_homepage = None\<rparr>))"

definition sample_registry :: registry where
  "sample_registry = registry_table [(''left-pad'', ''1.3.0''), (''jest'', ''29.0.0'')]"

definition sample_report :: outdated_report where
  "sample_report =
     \<lparr>repo = ''acme/site'',
      outdated = [\<lparr>package = ''left-pad'', current = ''^1.0.0'', latest = ''1.3.0'',
                   description = None\<rparr>],
      totalDependencies = 3\<rparr>"

definition sample_env :: env where
  "sample_env =
     \<lparr>GH_TOKEN = Some ''ghp_token'', ANTHROPIC_API_KEY = Some ''sk-key'',
      GMAIL_USER = Some ''bot@example.org'', GMAIL_APP_PASSWORD = Some ''secret'',
      RECIPIENT_EMAIL = Some ''dev@example.org''\<rparr>"

definition sample_alert :: security_alert where
  "sample_alert =
     \<lparr>alert_package = ''lodash'', alert_severity = Critical,
      alert_summary = ''Prototype pollution'', alert_cve = None,
      alert_vulnerableVersionRange = ''< 4.17.12'', alert_firstPatchedVersion = Some ''4.17.12'',
      alert_url = ''https://github.com/acme/api/security/dependabot/1''\<rparr>"

definition sample_world :: "string http \<Rightarrow> repo_report world" where
  "sample_world reply =
     \<lparr>github_contents = (\<lambda>token r.
        if r = ''acme/site'' then Response 200 (Usable (DecodesTo two_groups))
        else Response 404 Unusable),
      github_alerts = (\<lambda>token r.
        if r = ''acme/api'' then Response 200 (Usable (AlertsArray [sample_alert]))
        else Response 200 (Usable (AlertsArray []))),
      npm_registry = (\<lambda>r. sample_registry),
      claude_api = (\<lambda>key rs. reply),
      smtp = (\<lambda>user pass m. None)\<rparr>"

definition sample_config :: config where
  "sample_config = \<lparr>repos = [''acme/site'', ''acme/api'']\<rparr>"

definition sample_results :: "repo_report list" where
  "sample_results =
     [\<lparr>repo = ''acme/site'', outdated = outdated sample_report, totalDependencies = 3,
       securityAlerts = []\<rparr>,
      \<lparr>repo = ''acme/api'', outdated = [], totalDependencies = 0,
       securityAlerts = [sample_alert]\<rparr>]"

definition clean_world :: "repo_report world" where
  "clean_world =
     \<lparr>github_contents = (\<lambda>token r. Response 200 (Usable (DecodesTo (one_dep ''left-pad'' ''^1.3.0'')))),
      github_alerts = (\<lambda>token r. Response 404 Unusable),
      npm_registry = (\<lambda>r. registry_latest ''1.3.0''),
      claude_api = (\<lambda>key rs. ConnectionError ''unreachable''),
      smtp = (\<lambda>user pass m. None)\<rparr>"

definition clean_config :: config where
  "clean_config = \<lparr>repos = [''acme/site'']\<rparr>"

definition clean_results :: "repo_report list" where
  "clean_results =
     [\<lparr>repo = ''acme/site'', outdated = [], totalDependencies = 1, securityAlerts = []\<rparr>]"

definition high_only_results :: "repo_report list" where
  "high_only_results =
     [\<lparr>repo = ''acme/api'', outdated = [], totalDependencies = 0,
       securityAlerts = [sample_alert\<lparr>alert_severity := High\<rparr>]\<rparr>]"

definition critical_only_results :: "repo_report list" where
  "critical_only_results =
     [\<lparr>repo = ''acme/api'', outdated = [], totalDependencies = 0,
       securityAlerts = [sample_alert]\<rparr>]"

definition crash_world :: "repo_report world" where
  "crash_world = clean_world\<lparr>npm_registry := (\<lambda>r name. Response 200 Unusable)\<rparr>"

definition scenario_world :: "repo_report world" where
  "scenario_world =
     \<lparr>github_contents = (\<lambda>token r. Response 200 (Usable (DecodesTo (one_dep ''left-pad'' ''^1.0.0'')))),
      github_alerts = (\<lambda>token r. Response 200 (Usable (AlertsArray []))),
      npm_registry = (\<lambda>r. registry_latest ''1.3.0''),
      claude_api = (\<lambda>key rs. Response 200 (Usable ''Update left-pad.'')),
      smtp = (\<lambda>user pass m. None)\<rparr>"

definition scenario_results :: "repo_report list" where
  "scenario_results =
     [\<lparr>repo = ''acme/site'',
       outdated = [\<lparr>package = ''left-pad'', current = ''^1.0.0'', latest = ''1.3.0'',
                    description = None\<rparr>],
       totalDependencies = 1, securityAlerts = []\<rparr>]"

definition sample_world_v1 :: "outdated_report world" where
  "sample_world_v1 =
     \<lparr>github_contents = (\<lambda>token r.
        if r = ''acme/site'' then Response 200 (Usable (DecodesTo two_groups))
        else Response 404 Unusable),
      github_alerts = (\<lambda>token r. Response 404 Unusable),
      npm_registry = (\<lambda>r. sample_registry),
      claude_api = (\<lambda>key rs. Response 200 (Usable ''Update left-pad.'')),
      smtp = (\<lambda>user pass m. None)\<rparr>"

section \<open>Sequencing and traces\<close>

lemma await_simps [simp]:
  "await (Resolved x) k = k x"
  "await (Rejected e) k = Rejected e"
  "await (Uncaught e) k = Uncaught e"
  "await (Exited c) k = Exited c"
  by (simp_all add: await_def)

lemma mails_append [simp]: "mails (xs @ ys) = mails xs @ mails ys"
  by (induction xs rule: mails.induct) simp_all

lemma analyses_append [simp]: "analyses (xs @ ys) = analyses xs @ analyses ys"
  by (induction xs rule: analyses.induct) simp_all

lemma console_only_append [simp]: "console_only (xs @ ys) \<longleftrightarrow> console_only xs \<and> console_only ys"
  by (induction xs rule: console_only.induct) simp_all

lemma console_only_mails [simp]: "console_only xs \<Longrightarrow> mails xs = []"
  by (induction xs rule: console_only.induct) simp_all

lemma console_only_analyses [simp]: "console_only xs \<Longrightarrow> analyses xs = []"
  by (induction xs rule: console_only.induct) simp_all

lemma andThen_simps [simp]:
  "andThen (t, Resolved x) k = (t @ fst (k x), snd (k x))"
  "andThen (t, Rejected e) k = (t, Rejected e)"
  "andThen (t, Uncaught e) k = (t, Uncaught e)"
  "andThen (t, Exited c) k = (t, Exited c)"
  by (simp_all add: andThen_def split: prod.splits)

lemma getPackageJson_console: "console_only (fst (getPackageJson w r token))"
  by (simp add: getPackageJson_def split: outcome.splits option.splits manifest_decode.splits)

lemma getSecurityAlerts_console: "console_only (fst (getSecurityAlerts w r token))"
  by (simp add: getSecurityAlerts_def split: outcome.splits option.splits alerts_json.splits)


lemma getSecurityAlerts_cases:
  "(\<exists>t as. getSecurityAlerts w r token = (t, Resolved as) \<and> \<not> crashes (github_alerts w token r))
   \<or> getSecurityAlerts w r token = ([], Uncaught ParseError) \<and> crashes (github_alerts w token r)"
  by (auto simp: getSecurityAlerts_def githubRequest_def crashes_def
      split: http.splits body.splits alerts_json.splits)

lemma getPackageJson_fails:
  "manifest_fetch_fails (github_contents w token r) \<Longrightarrow>
   \<exists>e. getPackageJson w r token = ([ConsoleLog (CouldNotFetchPackageJson r e)], Resolved None)"
  by (auto simp: manifest_fetch_fails_def getPackageJson_def githubRequest_def
      split: http.splits body.splits)

lemma check_repo_console: "console_only (fst (check_repo w token r))"
proof -
  obtain t1 x1 where g: "getPackageJson w r token = (t1, x1)" by (cases "getPackageJson w r token")
  obtain t2 x2 where s: "getSecurityAlerts w r token = (t2, x2)" by (cases "getSecurityAlerts w r token")
  from getPackageJson_console [of w r token] g have c1: "console_only t1" by simp
  from getSecurityAlerts_console [of w r token] s have c2: "console_only t2" by simp
  show ?thesis
    by (cases x1; cases x2) (simp_all add: check_repo_def g s c1 c2 split: option.splits)
qed

lemma repo_loop_console: "console_only (fst (repo_loop w token rs acc))"
proof (induction w token rs acc rule: repo_loop.induct)
  case (1 w token results)
  show ?case by simp
next
  case (2 w token repoName rest results)
  obtain t x where c: "check_repo w token repoName = (t, x)" by (cases "check_repo w token repoName")
  from check_repo_console [of w token repoName] c have ct: "console_only t" by simp
  show ?case
  proof (cases x)
    case (Resolved report)
    with "2.IH" [OF c [symmetric] Resolved] ct c show ?thesis
      by (auto split: prod.splits)
  qed (simp_all add: c ct)
qed

section \<open>Version normalization\<close>

text \<open>
  Claim C8. Normalization strips a leading caret or tilde and leaves a version without
  such a marker unchanged: \<^verbatim>\<open>^1.2.3\<close> and \<^verbatim>\<open>~1.2.3\<close> both become \<^verbatim>\<open>1.2.3\<close>, and
  \<^verbatim>\<open>1.2.3\<close> stays as it is.
\<close>

theorem cleanVersion_strips_leading_marker:
  "cleanVersion (CHR ''^'' # v) = v \<and> cleanVersion (CHR ''~'' # v) = v
   \<and> (\<not> startsWithMarker v \<longrightarrow> cleanVersion v = v)
   \<and> cleanVersion ''^1.2.3'' = ''1.2.3'' \<and> cleanVersion ''~1.2.3'' = ''1.2.3''
   \<and> cleanVersion ''1.2.3'' = ''1.2.3''"
  by (cases v) (simp_all add: cleanVersion_def startsWithMarker_def)

theorem cleanVersion_strips_leading_marker_witness:
  "\<not> startsWithMarker ''1.2.3'' \<and> cleanVersion ''1.2.3'' = ''1.2.3''
   \<and> cleanVersion (CHR ''^'' # ''1.2.3'') = ''1.2.3''"
proof -
  have h: "\<not> startsWithMarker ''1.2.3''"
    by (simp add: startsWithMarker_def)
  from cleanVersion_strips_leading_marker [of "''1.2.3''"] h show ?thesis
    by blast
qed

text \<open>
  Claim C9. At most one leading marker is removed: of a version that begins with two
  markers only the first character goes, so the value compared with the registry still
  begins with a marker (and \<^verbatim>\<open>^^1.2.3\<close> against a latest \<^verbatim>\<open>1.2.3\<close> is recorded as
  outdated).
\<close>

theorem cleanVersion_strips_at_most_one:
  "cleanVersion (CHR ''^'' # c # v) = c # v \<and> cleanVersion (CHR ''~'' # c # v) = c # v
   \<and> cleanVersion ''^~1.2.3'' = ''~1.2.3'' \<and> cleanVersion ''^^1.2.3'' = ''^1.2.3''
   \<and> startsWithMarker (cleanVersion ''^~1.2.3'') \<and> startsWithMarker (cleanVersion ''^^1.2.3'')
   \<and> checkOutdatedPackages (registry_latest ''1.2.3'') (one_dep ''left-pad'' ''^^1.2.3'') repoName =
       Resolved \<lparr>repo = repoName,
                 outdated = [\<lparr>package = ''left-pad'', current = ''^^1.2.3'', latest = ''1.2.3'',
                              description = None\<rparr>],
                 totalDependencies = 1\<rparr>"
  by (simp add: cleanVersion_def startsWithMarker_def checkOutdatedPackages_def
      mergedDependencies_def spread_def one_dep_def registry_latest_def getNpmPackageInfo_def)

section \<open>The merged mapping\<close>

lemma foldl_update_keys:
  "fst ` set (foldl (\<lambda>acc (k, v). AList.update k v acc) t ps) = fst ` set t \<union> fst ` set ps"
proof (induction ps arbitrary: t)
  case Nil
  show ?case by simp
next
  case (Cons p ps)
  obtain k v where p: "p = (k, v)" by (cases p)
  show ?case
    by (simp add: p Cons.IH dom_update)
qed

lemma foldl_update_distinct:
  "distinct (map fst t) \<Longrightarrow> distinct (map fst (foldl (\<lambda>acc (k, v). AList.update k v acc) t ps))"
proof (induction ps arbitrary: t)
  case Nil
  then show ?case by simp
next
  case (Cons p ps)
  obtain k v where p: "p = (k, v)" by (cases p)
  from Cons.prems have "distinct (map fst (AList.update k v t))"
    by (rule distinct_update)
  then show ?case
    by (simp add: p Cons.IH)
qed

lemma foldl_update_map_of:
  "map_of (foldl (\<lambda>acc (k, v). AList.update k v acc) t ps) = map_of t ++ map_of (rev ps)"
proof (induction ps arbitrary: t)
  case Nil
  show ?case by simp
next
  case (Cons p ps)
  obtain k v where p: "p = (k, v)" by (cases p)
  show ?case
    by (simp add: p Cons.IH update_conv' map_add_def fun_eq_iff split: option.splits)
qed

lemma map_of_rev_distinct:
  "distinct (map fst ps) \<Longrightarrow> map_of (rev ps) = map_of ps"
  by (subst map_of_inject_set) (simp_all add: rev_map [symmetric])

lemma spread_keys: "fst ` set (spread t g) = fst ` set t \<union> fst ` set (entries g)"
  by (cases g) (simp_all add: spread_def entries_def foldl_update_keys)

lemma spread_distinct: "distinct (map fst t) \<Longrightarrow> distinct (map fst (spread t g))"
  by (cases g) (simp_all add: spread_def foldl_update_distinct)

lemma spread_map_of:
  "distinct (map fst (entries g)) \<Longrightarrow> map_of (spread t g) = map_of t ++ map_of (entries g)"
  by (cases g) (simp_all add: spread_def entries_def foldl_update_map_of map_of_rev_distinct)

lemma merged_distinct: "distinct (map fst (mergedDependencies pj))"
  by (simp add: mergedDependencies_def spread_distinct)

lemma merged_keys:
  "fst ` set (mergedDependencies pj) =
     fst ` set (entries (dependencies pj)) \<union> fst ` set (entries (devDependencies pj))"
  by (simp add: mergedDependencies_def spread_keys)

lemma merged_map_of:
  assumes "distinct (map fst (entries (dependencies pj)))"
      and "distinct (map fst (entries (devDependencies pj)))"
  shows "map_of (mergedDependencies pj) =
     map_of (entries (dependencies pj)) ++ map_of (entries (devDependencies pj))"
  using assms by (simp add: mergedDependencies_def spread_map_of)

lemma merged_set:
  assumes d1: "distinct (map fst (entries (dependencies pj)))"
      and d2: "distinct (map fst (entries (devDependencies pj)))"
  shows "set (mergedDependencies pj) =
     set (entries (devDependencies pj)) \<union>
     {e \<in> set (entries (dependencies pj)). fst e \<notin> fst ` set (entries (devDependencies pj))}"
proof (rule set_eqI)
  fix e :: "string \<times> string"
  obtain k v where e: "e = (k, v)" by (cases e)
  have "e \<in> set (mergedDependencies pj) \<longleftrightarrow> map_of (mergedDependencies pj) k = Some v"
    by (simp add: e merged_distinct)
  also have "\<dots> \<longleftrightarrow> (map_of (entries (dependencies pj)) ++ map_of (entries (devDependencies pj))) k = Some v"
    by (simp add: merged_map_of [OF d1 d2])
  also have "\<dots> \<longleftrightarrow> map_of (entries (devDependencies pj)) k = Some v
      \<or> map_of (entries (devDependencies pj)) k = None \<and> map_of (entries (dependencies pj)) k = Some v"
    by (rule map_add_Some_iff)
  also have "\<dots> \<longleftrightarrow> e \<in> set (entries (devDependencies pj))
      \<or> k \<notin> fst ` set (entries (devDependencies pj)) \<and> e \<in> set (entries (dependencies pj))"
    by (simp add: e d1 d2 map_of_eq_None_iff)
  finally show "e \<in> set (mergedDependencies pj) \<longleftrightarrow>
      e \<in> set (entries (devDependencies pj)) \<union>
        {e \<in> set (entries (dependencies pj)). fst e \<notin> fst ` set (entries (devDependencies pj))}"
    by (auto simp: e)
qed

text \<open>
  Claim C7. For a manifest whose two groups are objects (no key twice within a group),
  the merged mapping is the union of the regular and the development group in which a
  development entry replaces a regular entry of the same name, and no name occurs twice
  in it.
\<close>

theorem merged_is_union_with_dev_override:
  assumes "distinct (map fst (entries (dependencies pj)))"
      and "distinct (map fst (entries (devDependencies pj)))"
  shows "map_of (mergedDependencies pj) =
           map_of (entries (dependencies pj)) ++ map_of (entries (devDependencies pj))
       \<and> set (mergedDependencies pj) =
           set (entries (devDependencies pj)) \<union>
           {e \<in> set (entries (dependencies pj)).
              fst e \<notin> fst ` set (entries (devDependencies pj))}
       \<and> distinct (map fst (mergedDependencies pj))"
  using merged_map_of [OF assms] merged_set [OF assms] merged_distinct [of pj]
  by simp

theorem merged_is_union_with_dev_override_witness:
  "mergedDependencies two_groups =
     [(''left-pad'', ''^1.0.0''), (''jest'', ''^29.0.0''), (''eslint'', ''~8.1.0'')]
   \<and> set (mergedDependencies two_groups) =
       set (entries (devDependencies two_groups)) \<union>
       {e \<in> set (entries (dependencies two_groups)).
          fst e \<notin> fst ` set (entries (devDependencies two_groups))}
   \<and> distinct (map fst (mergedDependencies two_groups))"
proof -
  have d1: "distinct (map fst (entries (dependencies two_groups)))"
    by (simp add: two_groups_def entries_def)
  have d2: "distinct (map fst (entries (devDependencies two_groups)))"
    by (simp add: two_groups_def entries_def)
  have m: "mergedDependencies two_groups =
     [(''left-pad'', ''^1.0.0''), (''jest'', ''^29.0.0''), (''eslint'', ''~8.1.0'')]"
    by (simp add: two_groups_def mergedDependencies_def spread_def)
  from merged_is_union_with_dev_override [OF d1 d2] m show ?thesis
    by blast
qed

section \<open>The comparator loop\<close>

lemma getNpmPackageInfo_cases:
  "getNpmPackageInfo reg name = Uncaught ParseError \<and> crashes (reg name)
   \<or> (\<exists>info. getNpmPackageInfo reg name = Resolved info) \<and> \<not> crashes (reg name)"
  by (auto simp: getNpmPackageInfo_def crashes_def split: http.splits body.splits)

lemma outdated_loop_total:
  "list_all (\<lambda>e. \<not> crashes (reg (fst e))) ps \<Longrightarrow>
   outdated_loop reg ps acc = Resolved (acc @ List.map_filter (record_for reg) ps)"
proof (induction reg ps acc rule: outdated_loop.induct)
  case (1 reg acc)
  then show ?case by simp
next
  case (2 reg name currentVersion rest acc)
  from "2.prems" have nc: "\<not> crashes (reg name)" by simp
  with getNpmPackageInfo_cases [of reg name]
  obtain info where info: "getNpmPackageInfo reg name = Resolved info" by blast
  from "2.prems" have rest: "list_all (\<lambda>e. \<not> crashes (reg (fst e))) rest" by simp
  show ?case
    using "2.IH" [OF info] rest
    by (cases info) (auto simp: info)
qed

lemma outdated_loop_crash:
  "list_ex (\<lambda>e. crashes (reg (fst e))) ps \<Longrightarrow> outdated_loop reg ps acc = Uncaught ParseError"
proof (induction reg ps acc rule: outdated_loop.induct)
  case (1 reg acc)
  then show ?case by simp
next
  case (2 reg name currentVersion rest acc)
  show ?case
  proof (cases "crashes (reg name)")
    case True
    with getNpmPackageInfo_cases [of reg name] show ?thesis by auto
  next
    case False
    with getNpmPackageInfo_cases [of reg name]
    obtain info where info: "getNpmPackageInfo reg name = Resolved info" by blast
    from False "2.prems" have rest: "list_ex (\<lambda>e. crashes (reg (fst e))) rest" by simp
    show ?thesis
      using "2.IH" [OF info] rest
      by (cases info) (auto simp: info)
  qed
qed

lemma checkOutdatedPackages_total:
  "list_all (\<lambda>e. \<not> crashes (reg (fst e))) (mergedDependencies pj) \<Longrightarrow>
   checkOutdatedPackages reg pj repoName =
     Resolved \<lparr>repo = repoName,
               outdated = List.map_filter (record_for reg) (mergedDependencies pj),
               totalDependencies = length (mergedDependencies pj)\<rparr>"
  by (simp add: checkOutdatedPackages_def Let_def outdated_loop_total)

lemma checkOutdatedPackages_crash:
  "list_ex (\<lambda>e. crashes (reg (fst e))) (mergedDependencies pj) \<Longrightarrow>
   checkOutdatedPackages reg pj repoName = Uncaught ParseError"
  by (simp add: checkOutdatedPackages_def Let_def outdated_loop_crash)

lemma checkOutdatedPackages_resolved:
  assumes "checkOutdatedPackages reg pj repoName = Resolved rep"
  shows "list_all (\<lambda>e. \<not> crashes (reg (fst e))) (mergedDependencies pj)"
    and "rep = \<lparr>repo = repoName,
               outdated = List.map_filter (record_for reg) (mergedDependencies pj),
               totalDependencies = length (mergedDependencies pj)\<rparr>"
proof -
  show nc: "list_all (\<lambda>e. \<not> crashes (reg (fst e))) (mergedDependencies pj)"
  proof (rule ccontr)
    assume "\<not> list_all (\<lambda>e. \<not> crashes (reg (fst e))) (mergedDependencies pj)"
    then have "list_ex (\<lambda>e. crashes (reg (fst e))) (mergedDependencies pj)"
      by (simp add: list_all_iff list_ex_iff)
    from checkOutdatedPackages_crash [OF this] assms show False by simp
  qed
  from checkOutdatedPackages_total [OF nc] assms
  show "rep = \<lparr>repo = repoName,
               outdated = List.map_filter (record_for reg) (mergedDependencies pj),
               totalDependencies = length (mergedDependencies pj)\<rparr>"
    by simp
qed

lemma record_for_package: "record_for reg e = Some r \<Longrightarrow> package r = fst e \<and> current r = snd e"
  by (cases e) (auto split: outcome.splits option.splits if_splits)

lemma map_filter_packages:
  "map package (List.map_filter (record_for reg) ps) =
     map fst (filter (\<lambda>e. record_for reg e \<noteq> None) ps)"
proof (induction ps)
  case Nil
  show ?case by simp
next
  case (Cons e ps)
  show ?case
  proof (cases "record_for reg e")
    case None
    with Cons.IH show ?thesis by simp
  next
    case (Some r)
    with Cons.IH record_for_package [OF Some] show ?thesis by simp
  qed
qed

lemma set_map_filter: "set (List.map_filter f xs) = {y. \<exists>x \<in> set xs. f x = Some y}"
  by (induction xs) (auto split: option.splits)

lemma sample_check:
  "checkOutdatedPackages sample_registry two_groups ''acme/site'' = Resolved sample_report"
  by (simp add: checkOutdatedPackages_def mergedDependencies_def spread_def two_groups_def
      sample_registry_def registry_table_def getNpmPackageInfo_def cleanVersion_def
      sample_report_def)

text \<open>
  Claim C10. Every report the comparator produces has \<open>totalDependencies\<close> equal to
  the number of distinct names of the two groups together (a name in both is counted
  once), at most that many outdated records, and outdated records whose package names
  are pairwise distinct keys of the merged mapping.
\<close>

theorem report_counts_distinct_names:
  assumes "checkOutdatedPackages reg pj repoName = Resolved rep"
  shows "totalDependencies rep = card (fst ` set (mergedDependencies pj))
       \<and> totalDependencies rep =
           card (fst ` set (entries (dependencies pj)) \<union> fst ` set (entries (devDependencies pj)))
       \<and> length (outdated rep) \<le> totalDependencies rep
       \<and> distinct (map package (outdated rep))
       \<and> set (map package (outdated rep)) \<subseteq> fst ` set (mergedDependencies pj)"
proof -
  let ?m = "mergedDependencies pj"
  from checkOutdatedPackages_resolved(2) [OF assms]
  have out: "outdated rep = List.map_filter (record_for reg) ?m"
    and tot: "totalDependencies rep = length ?m"
    by simp_all
  have "length ?m = length (map fst ?m)" by simp
  also have "\<dots> = card (set (map fst ?m))"
    by (rule distinct_card [symmetric]) (rule merged_distinct)
  also have "\<dots> = card (fst ` set (entries (dependencies pj)) \<union> fst ` set (entries (devDependencies pj)))"
    by (simp add: merged_keys)
  finally have c1: "totalDependencies rep =
      card (fst ` set (entries (dependencies pj)) \<union> fst ` set (entries (devDependencies pj)))"
    by (simp add: tot)
  then have c0: "totalDependencies rep = card (fst ` set ?m)"
    by (simp add: merged_keys)
  have names: "map package (outdated rep) = map fst (filter (\<lambda>e. record_for reg e \<noteq> None) ?m)"
    by (simp add: out map_filter_packages)
  have "length (outdated rep) = length (map package (outdated rep))" by simp
  also have "\<dots> \<le> length ?m"
    by (simp add: names)
  finally have c2: "length (outdated rep) \<le> totalDependencies rep"
    by (simp add: tot)
  have c3: "distinct (map package (outdated rep))"
    unfolding names by (rule distinct_map_filter) (rule merged_distinct)
  have c4: "set (map package (outdated rep)) \<subseteq> fst ` set ?m"
    unfolding names by auto
  from c0 c1 c2 c3 c4 show ?thesis by blast
qed

theorem report_counts_distinct_names_witness:
  "checkOutdatedPackages sample_registry two_groups ''acme/site'' = Resolved sample_report
   \<and> totalDependencies sample_report = 3
   \<and> card (fst ` set (entries (dependencies two_groups))
            \<union> fst ` set (entries (devDependencies two_groups))) = 3
   \<and> length (outdated sample_report) \<le> totalDependencies sample_report
   \<and> distinct (map package (outdated sample_report))"
proof -
  have t: "totalDependencies sample_report = 3"
    by (simp add: sample_report_def)
  from report_counts_distinct_names [OF sample_check] sample_check t show ?thesis
    by simp
qed

text \<open>
  Claim C1. When no registry answer makes the response callback throw, the comparator
  returns a report, and for every entry of the merged mapping it holds a record for that
  name if and only if the registry lookup resolved with data whose latest version is, as
  a string, different from the declared version after normalization; the record carries
  the declared version as written and the registry's latest. In particular
  \<^verbatim>\<open>left-pad\<close> declared as \<^verbatim>\<open>^1.0.0\<close> against a latest \<^verbatim>\<open>1.3.0\<close> yields exactly that one
  record, although the range admits the latest version.
\<close>

theorem comparator_records_iff_latest_differs:
  "(list_all (\<lambda>e. \<not> crashes (reg (fst e))) (mergedDependencies pj) \<longrightarrow>
      (\<exists>rep. checkOutdatedPackages reg pj repoName = Resolved rep
         \<and> outdated rep = List.map_filter (record_for reg) (mergedDependencies pj)
         \<and> (\<forall>name cur. (name, cur) \<in> set (mergedDependencies pj) \<longrightarrow>
               ((\<exists>r \<in> set (outdated rep). package r = name) \<longleftrightarrow>
                (\<exists>i. getNpmPackageInfo reg name = Resolved (Some i)
                      \<and> info_latest i \<noteq> cleanVersion cur))
             \<and> (\<forall>r \<in> set (outdated rep). package r = name \<longrightarrow>
                   current r = cur
                   \<and> (\<exists>i. getNpmPackageInfo reg name = Resolved (Some i)
                           \<and> latest r = info_latest i)))))
   \<and> checkOutdatedPackages (registry_latest ''1.3.0'') (one_dep ''left-pad'' ''^1.0.0'') repoName =
       Resolved \<lparr>repo = repoName,
                 outdated = [\<lparr>package = ''left-pad'', current = ''^1.0.0'', latest = ''1.3.0'',
                              description = None\<rparr>],
                 totalDependencies = 1\<rparr>"
proof (intro conjI impI)
  let ?m = "mergedDependencies pj"
  let ?out = "List.map_filter (record_for reg) ?m"
  assume nc: "list_all (\<lambda>e. \<not> crashes (reg (fst e))) ?m"
  have iff: "(\<exists>r \<in> set ?out. package r = name) \<longleftrightarrow>
             (\<exists>i. getNpmPackageInfo reg name = Resolved (Some i) \<and> info_latest i \<noteq> cleanVersion cur)"
    if mem: "(name, cur) \<in> set ?m" for name cur
  proof
    assume "\<exists>r \<in> set ?out. package r = name"
    then obtain r e where e: "e \<in> set ?m" and r: "record_for reg e = Some r" and p: "package r = name"
      by (auto simp: set_map_filter)
    from record_for_package [OF r] p have "fst e = name" by simp
    with e mem merged_distinct [of pj] have "e = (name, cur)"
      by (metis eq_key_imp_eq_value prod.collapse)
    with r show "\<exists>i. getNpmPackageInfo reg name = Resolved (Some i) \<and> info_latest i \<noteq> cleanVersion cur"
      by (auto split: outcome.splits option.splits if_splits)
  next
    assume "\<exists>i. getNpmPackageInfo reg name = Resolved (Some i) \<and> info_latest i \<noteq> cleanVersion cur"
    then obtain i where "getNpmPackageInfo reg name = Resolved (Some i)" "info_latest i \<noteq> cleanVersion cur"
      by blast
    then have "record_for reg (name, cur) =
        Some \<lparr>package = name, current = cur, latest = info_latest i, description = info_description i\<rparr>"
      by simp
    with mem show "\<exists>r \<in> set ?out. package r = name"
      by (force simp: set_map_filter)
  qed
  have fields: "current r = cur \<and> (\<exists>i. getNpmPackageInfo reg name = Resolved (Some i) \<and> latest r = info_latest i)"
    if mem: "(name, cur) \<in> set ?m" and r: "r \<in> set ?out" and p: "package r = name" for name cur r
  proof -
    from r obtain e where e: "e \<in> set ?m" and re: "record_for reg e = Some r"
      by (auto simp: set_map_filter)
    from record_for_package [OF re] p have "fst e = name" by simp
    with e mem merged_distinct [of pj] have "e = (name, cur)"
      by (metis eq_key_imp_eq_value prod.collapse)
    with re show ?thesis
      by (auto split: outcome.splits option.splits if_splits)
  qed
  from checkOutdatedPackages_total [OF nc, of repoName] iff fields
  show "\<exists>rep. checkOutdatedPackages reg pj repoName = Resolved rep
         \<and> outdated rep = ?out
         \<and> (\<forall>name cur. (name, cur) \<in> set ?m \<longrightarrow>
               ((\<exists>r \<in> set (outdated rep). package r = name) \<longleftrightarrow>
                (\<exists>i. getNpmPackageInfo reg name = Resolved (Some i)
                      \<and> info_latest i \<noteq> cleanVersion cur))
             \<and> (\<forall>r \<in> set (outdated rep). package r = name \<longrightarrow>
                   current r = cur
                   \<and> (\<exists>i. getNpmPackageInfo reg name = Resolved (Some i)
                           \<and> latest r = info_latest i)))"
    by simp
next
  show "checkOutdatedPackages (registry_latest ''1.3.0'') (one_dep ''left-pad'' ''^1.0.0'') repoName =
       Resolved \<lparr>repo = repoName,
                 outdated = [\<lparr>package = ''left-pad'', current = ''^1.0.0'', latest = ''1.3.0'',
                              description = None\<rparr>],
                 totalDependencies = 1\<rparr>"
    by (simp add: cleanVersion_def checkOutdatedPackages_def
      mergedDependencies_def spread_def one_dep_def registry_latest_def getNpmPackageInfo_def)
qed

theorem comparator_records_iff_latest_differs_witness:
  "list_all (\<lambda>e. \<not> crashes (sample_registry (fst e))) (mergedDependencies two_groups)
   \<and> (\<exists>rep. checkOutdatedPackages sample_registry two_groups ''acme/site'' = Resolved rep
        \<and> outdated rep = List.map_filter (record_for sample_registry) (mergedDependencies two_groups))
   \<and> List.map_filter (record_for sample_registry) (mergedDependencies two_groups) =
       [\<lparr>package = ''left-pad'', current = ''^1.0.0'', latest = ''1.3.0'', description = None\<rparr>]"
proof -
  have m: "mergedDependencies two_groups =
     [(''left-pad'', ''^1.0.0''), (''jest'', ''^29.0.0''), (''eslint'', ''~8.1.0'')]"
    by (simp add: two_groups_def mergedDependencies_def spread_def)
  have nc: "list_all (\<lambda>e. \<not> crashes (sample_registry (fst e))) (mergedDependencies two_groups)"
    by (simp add: m sample_registry_def registry_table_def crashes_def)
  have out: "List.map_filter (record_for sample_registry) (mergedDependencies two_groups) =
       [\<lparr>package = ''left-pad'', current = ''^1.0.0'', latest = ''1.3.0'', description = None\<rparr>]"
    by (simp add: m sample_registry_def registry_table_def getNpmPackageInfo_def cleanVersion_def)
  from comparator_records_iff_latest_differs [of sample_registry two_groups "''acme/site''"] nc
  have "\<exists>rep. checkOutdatedPackages sample_registry two_groups ''acme/site'' = Resolved rep
        \<and> outdated rep = List.map_filter (record_for sample_registry) (mergedDependencies two_groups)"
    by blast
  with nc out show ?thesis by blast
qed

section \<open>The registry client's failure modes\<close>

text \<open>
  A connection error and every status but 200 resolve with \<^verbatim>\<open>null\<close>, and the promise is
  never rejected; the one outcome that is not a resolution is the exception of the
  response callback on a 200 with an unusable body.
\<close>

lemma getNpmPackageInfo_failures_resolve_null:
  "(reg name = ConnectionError x \<longrightarrow> getNpmPackageInfo reg name = Resolved None)
   \<and> (reg name = Response statusCode b \<and> statusCode \<noteq> 200 \<longrightarrow>
        getNpmPackageInfo reg name = Resolved None)
   \<and> getNpmPackageInfo reg name \<noteq> Rejected e
   \<and> (getNpmPackageInfo reg name = Uncaught e \<longleftrightarrow> reg name = Response 200 Unusable \<and> e = ParseError)"
  by (auto simp: getNpmPackageInfo_def split: http.splits body.splits)

text \<open>
  Claim C4 says that the registry client never rejects or throws. A response with status
  200 whose body is not a JSON document with a \<^verbatim>\<open>dist-tags\<close> object makes the callback
  throw: the lookup ends with an uncaught exception, so does the comparator, and the run
  ends with status 1 without a report or a mail.
\<close>

theorem registry_client_throws_on_unusable_body:
  "getNpmPackageInfo (\<lambda>name. Response 200 Unusable) ''left-pad'' = Uncaught ParseError
   \<and> checkOutdatedPackages (\<lambda>name. Response 200 Unusable) (one_dep ''left-pad'' ''^1.3.0'')
        ''acme/site'' = Uncaught ParseError
   \<and> run crash_world sample_env clean_config = \<lparr>trace = [], exit_code = 1\<rparr>"
  by (simp add: getNpmPackageInfo_def checkOutdatedPackages_def mergedDependencies_def spread_def
      one_dep_def run_def finish_def main_def sample_env_def clean_config_def crash_world_def
      clean_world_def check_repo_def getPackageJson_def getSecurityAlerts_def githubRequest_def)

section \<open>The subject of the report\<close>

lemma foldl_add_length: "foldl (\<lambda>sum r. sum + length (f r)) n rs = n + sum_list (map (\<lambda>r. length (f r)) rs)"
  by (induction rs arbitrary: n) simp_all

lemma totalOutdated_sum: "totalOutdated results = sum_list (map (\<lambda>r. length (outdated r)) results)"
  by (simp add: totalOutdated_def foldl_add_length)

lemma totalVulnerabilities_sum:
  "totalVulnerabilities results = sum_list (map (\<lambda>r. length (securityAlerts r)) results)"
  by (simp add: totalVulnerabilities_def foldl_add_length)

lemma critical_issues_pos:
  "0 < length (criticalSecurityIssues results) \<longleftrightarrow>
   has_alert (\<lambda>a. alert_severity a = Critical \<or> alert_severity a = High) results"
  by (induction results)
     (auto simp: criticalSecurityIssues_def has_alert_def list_ex_iff filter_empty_conv)

lemma totalVulnerabilities_pos:
  "0 < totalVulnerabilities results \<longleftrightarrow> has_alert (\<lambda>a. True) results"
  by (induction results)
     (auto simp: totalVulnerabilities_sum has_alert_def list_ex_iff)

lemma totalOutdated_pos: "0 < totalOutdated results \<longleftrightarrow> has_outdated results"
  by (induction results) (auto simp: totalOutdated_sum has_outdated_def)

lemma critical_issues_count:
  "length (criticalSecurityIssues results) =
   length (filter (\<lambda>a. alert_severity a = Critical \<or> alert_severity a = High)
             (concat (map securityAlerts results)))"
  by (induction results) (simp_all add: criticalSecurityIssues_def)

text \<open>
  Claim C5 as stated ranks "critical vulnerabilities" first. For reports whose only
  advisory has severity high the subject is the security alert, while the most severe
  condition in the words of the claim is "any vulnerabilities".
\<close>

theorem subject_priority_counterexample:
  "emailSubject high_only_results = SecurityAlert 1
   \<and> spec_condition high_only_results = AnyVulnerabilities
   \<and> subject_condition (emailSubject high_only_results) \<noteq> spec_condition high_only_results"
  by (simp add: emailSubject_def criticalSecurityIssues_def high_only_results_def
      spec_condition_def has_alert_def sample_alert_def)

text \<open>
  Claim C5, amended. The subject announces the most severe condition found in the order
  critical-or-high vulnerabilities, any vulnerabilities, outdated packages only, nothing,
  with the matching count; reports with an advisory of severity critical get the security
  alert whatever the number of outdated packages.
\<close>

theorem subject_reflects_most_severe_condition:
  "subject_condition (emailSubject results) = found_condition results
   \<and> emailSubject results =
       (case found_condition results of
          CriticalVulnerabilities \<Rightarrow>
            SecurityAlert (length (filter (\<lambda>a. alert_severity a = Critical \<or> alert_severity a = High)
                                     (concat (map securityAlerts results))))
        | AnyVulnerabilities \<Rightarrow> SecurityUpdate (sum_list (map (\<lambda>r. length (securityAlerts r)) results))
        | OutdatedOnly \<Rightarrow> PackageUpdates (sum_list (map (\<lambda>r. length (outdated r)) results))
        | NothingFound \<Rightarrow> MonthlyReport)
   \<and> (has_alert (\<lambda>a. alert_severity a = Critical) results \<longrightarrow>
        (\<exists>n. 0 < n \<and> emailSubject results = SecurityAlert n))"
proof -
  have crit: "has_alert (\<lambda>a. alert_severity a = Critical) results \<Longrightarrow>
      has_alert (\<lambda>a. alert_severity a = Critical \<or> alert_severity a = High) results"
    by (auto simp: has_alert_def list_ex_iff)
  have c1: "subject_condition (emailSubject results) = found_condition results"
    by (simp add: emailSubject_def found_condition_def critical_issues_pos [symmetric]
        totalVulnerabilities_pos [symmetric] totalOutdated_pos [symmetric])
  have e: "emailSubject results =
       (if has_alert (\<lambda>a. alert_severity a = Critical \<or> alert_severity a = High) results
        then SecurityAlert (length (criticalSecurityIssues results))
        else if has_alert (\<lambda>a. True) results then SecurityUpdate (totalVulnerabilities results)
        else if has_outdated results then PackageUpdates (totalOutdated results)
        else MonthlyReport)"
    unfolding emailSubject_def critical_issues_pos totalVulnerabilities_pos totalOutdated_pos
    by (rule refl)
  have c2: "emailSubject results =
       (case found_condition results of
          CriticalVulnerabilities \<Rightarrow>
            SecurityAlert (length (filter (\<lambda>a. alert_severity a = Critical \<or> alert_severity a = High)
                                     (concat (map securityAlerts results))))
        | AnyVulnerabilities \<Rightarrow> SecurityUpdate (sum_list (map (\<lambda>r. length (securityAlerts r)) results))
        | OutdatedOnly \<Rightarrow> PackageUpdates (sum_list (map (\<lambda>r. length (outdated r)) results))
        | NothingFound \<Rightarrow> MonthlyReport)"
    unfolding e found_condition_def critical_issues_count totalVulnerabilities_sum totalOutdated_sum
    by simp
  have c3: "\<exists>n. 0 < n \<and> emailSubject results = SecurityAlert n"
    if h: "has_alert (\<lambda>a. alert_severity a = Critical) results"
  proof -
    from crit [OF h]
    have ch: "has_alert (\<lambda>a. alert_severity a = Critical \<or> alert_severity a = High) results" .
    with e have "emailSubject results = SecurityAlert (length (criticalSecurityIssues results))"
      by simp
    moreover from ch have "0 < length (criticalSecurityIssues results)"
      by (simp only: critical_issues_pos)
    ultimately show ?thesis by blast
  qed
  from c1 c2 c3 show ?thesis by blast
qed

theorem subject_reflects_most_severe_condition_witness:
  "has_alert (\<lambda>a. alert_severity a = Critical) critical_only_results
   \<and> totalOutdated critical_only_results = 0
   \<and> emailSubject critical_only_results = SecurityAlert 1"
proof -
  have h: "has_alert (\<lambda>a. alert_severity a = Critical) critical_only_results"
    by (simp add: has_alert_def critical_only_results_def sample_alert_def)
  have z: "totalOutdated critical_only_results = 0"
    by (simp add: totalOutdated_def critical_only_results_def)
  have f: "found_condition critical_only_results = CriticalVulnerabilities"
    by (simp add: found_condition_def has_alert_def critical_only_results_def sample_alert_def)
  have n: "length (filter (\<lambda>a. alert_severity a = Critical \<or> alert_severity a = High)
             (concat (map securityAlerts critical_only_results))) = 1"
    by (simp add: critical_only_results_def sample_alert_def)
  from subject_reflects_most_severe_condition [of critical_only_results] f n
  have "emailSubject critical_only_results = SecurityAlert 1"
    by simp
  with h z show ?thesis by simp
qed

section \<open>The orchestrator\<close>

lemma main_all_clean:
  assumes "GH_TOKEN e = Some token" and "token \<noteq> []"
      and "repo_loop w token (repos cfg) [] = (t, Resolved results)"
      and "totalVulnerabilities results = 0" and "totalOutdated results = 0"
  shows "main w e cfg =
     (t @ [SendMail (short_notice e)],
      case relay w e (short_notice e) of None \<Rightarrow> Resolved () | Some err \<Rightarrow> Rejected err)"
  using assms by (simp add: main_def sendMail_def short_notice_def relay_def)

lemma main_needs_analysis:
  assumes "GH_TOKEN e = Some token" and "token \<noteq> []"
      and "repo_loop w token (repos cfg) [] = (t, Resolved results)"
      and "\<not> (totalVulnerabilities results = 0 \<and> totalOutdated results = 0)"
  shows "main w e cfg =
     (case ANTHROPIC_API_KEY e of
        None \<Rightarrow> (t @ [AnalyzeCall results], Rejected TypeError)
      | Some key \<Rightarrow>
          (case claude_api w key results of
             ConnectionError x \<Rightarrow> (t @ [AnalyzeCall results], Rejected (NetworkError x))
           | Response statusCode b \<Rightarrow>
               if statusCode = 200 then
                 (case b of
                    Usable text \<Rightarrow>
                      (t @ [AnalyzeCall results, SendMail (full_report e text results)],
                       case relay w e (full_report e text results) of
                         None \<Rightarrow> Resolved () | Some err \<Rightarrow> Rejected err)
                  | Unusable \<Rightarrow> (t @ [AnalyzeCall results], Uncaught ParseError))
               else (t @ [AnalyzeCall results], Rejected (ClaudeApiError statusCode))))"
  using assms
  by (simp add: main_def analyzeWithClaude_def sendEmail_def sendMail_def full_report_def
      relay_def split: http.splits body.splits option.splits)

lemma loop_trace_quiet:
  assumes "repo_loop w token rs acc = (t, x)"
  shows "console_only t"
  using repo_loop_console [of w token rs acc] assms by simp


lemma check_repo_failed_manifest:
  assumes "manifest_fetch_fails (github_contents w token r)"
      and "\<not> crashes (github_alerts w token r)"
  shows "\<exists>e ta alerts. getSecurityAlerts w r token = (ta, Resolved alerts)
     \<and> check_repo w token r =
         (ConsoleLog (CouldNotFetchPackageJson r e) # ta,
          Resolved \<lparr>repo = r, outdated = [], totalDependencies = 0, securityAlerts = alerts\<rparr>)"
proof -
  from getPackageJson_fails [OF assms(1)]
  obtain e where g: "getPackageJson w r token = ([ConsoleLog (CouldNotFetchPackageJson r e)], Resolved None)"
    by blast
  from getSecurityAlerts_cases [of w r token] assms(2)
  obtain ta alerts where s: "getSecurityAlerts w r token = (ta, Resolved alerts)"
    by blast
  show ?thesis
    by (simp add: check_repo_def g s)
qed



lemma sample_loop:
  "repo_loop (sample_world reply) ''ghp_token'' (repos sample_config) [] =
     ([ConsoleLog (CouldNotFetchPackageJson ''acme/api'' TypeError)], Resolved sample_results)"
  by (simp add: sample_config_def sample_world_def check_repo_def getPackageJson_def
      getSecurityAlerts_def githubRequest_def sample_check sample_results_def sample_report_def)

lemma clean_check:
  "checkOutdatedPackages (registry_latest ''1.3.0'') (one_dep ''left-pad'' ''^1.3.0'') ''acme/site'' =
     Resolved \<lparr>repo = ''acme/site'', outdated = [], totalDependencies = 1\<rparr>"
  by (simp add: cleanVersion_def checkOutdatedPackages_def
      mergedDependencies_def spread_def one_dep_def registry_latest_def getNpmPackageInfo_def)

lemma clean_loop:
  "repo_loop clean_world ''ghp_token'' (repos clean_config) [] = ([], Resolved clean_results)"
  by (simp add: clean_config_def clean_world_def check_repo_def getPackageJson_def
      getSecurityAlerts_def githubRequest_def clean_check clean_results_def)

lemma sample_token: "GH_TOKEN sample_env = Some ''ghp_token''" "''ghp_token'' \<noteq> []"
  by (simp_all add: sample_env_def)

lemma sample_totals:
  "totalOutdated sample_results = 1" "totalVulnerabilities sample_results = 1"
  "totalOutdated clean_results = 0" "totalVulnerabilities clean_results = 0"
  by (simp_all add: totalOutdated_def totalVulnerabilities_def sample_results_def
      sample_report_def clean_results_def)

text \<open>
  A 200 answer of the contents endpoint whose body does not parse is not a failure of
  the kind \<open>manifest_fetch_fails\<close> describes:
  \<^verbatim>\<open>JSON.parse\<close> throws in the response callback of \<^verbatim>\<open>githubRequest\<close>, outside the \<^verbatim>\<open>try\<close>
  of \<^verbatim>\<open>getPackageJson\<close>, nothing is logged and the check of the repository ends the
  process.
\<close>

lemma check_repo_unparsable_contents:
  "crashes (github_contents w token r) \<Longrightarrow> check_repo w token r = ([], Uncaught ParseError)"
  by (simp add: crashes_def check_repo_def getPackageJson_def githubRequest_def)





text \<open>
  Claim C2. With the token set and the loop completed, the run sends the short notice
  as its only mail and never calls the summarizer if and only if the outdated records
  and the alerts of all reports both total zero, and then exits with 0 once the relay
  has taken the mail; otherwise it calls the summarizer with the results and, with the
  analysis returned, hands the full report to the relay next.
\<close>

theorem all_clean_iff_no_findings:
  assumes tok: "GH_TOKEN e = Some token" "token \<noteq> []"
      and loop: "repo_loop w token (repos cfg) [] = (t, Resolved results)"
  shows "(mails (trace (run w e cfg)) = [short_notice e] \<and> analyses (trace (run w e cfg)) = []
            \<longleftrightarrow> totalOutdated results = 0 \<and> totalVulnerabilities results = 0)
       \<and> (totalOutdated results = 0 \<and> totalVulnerabilities results = 0 \<longrightarrow>
            exit_code (run w e cfg) = (if relay w e (short_notice e) = None then 0 else 1))
       \<and> (\<not> (totalOutdated results = 0 \<and> totalVulnerabilities results = 0) \<longrightarrow>
            analyses (trace (run w e cfg)) = [results]
            \<and> (\<forall>key text. ANTHROPIC_API_KEY e = Some key
                    \<and> claude_api w key results = Response 200 (Usable text) \<longrightarrow>
                  mails (trace (run w e cfg)) = [full_report e text results]
                  \<and> (\<exists>rest. console_only rest \<and> trace (run w e cfg) =
                        t @ [AnalyzeCall results, SendMail (full_report e text results)] @ rest)))
       \<and> totalOutdated results = sum_list (map (\<lambda>r. length (outdated r)) results)
       \<and> totalVulnerabilities results = sum_list (map (\<lambda>r. length (securityAlerts r)) results)"
proof -
  from loop have q: "console_only t" by (rule loop_trace_quiet)
  show ?thesis
  proof (cases "totalVulnerabilities results = 0 \<and> totalOutdated results = 0")
    case True
    then have z: "totalVulnerabilities results = 0" "totalOutdated results = 0" by simp_all
    have m: "main w e cfg =
       (t @ [SendMail (short_notice e)],
        case relay w e (short_notice e) of None \<Rightarrow> Resolved () | Some err \<Rightarrow> Rejected err)"
      by (rule main_all_clean [OF tok loop z])
    show ?thesis
      by (cases "relay w e (short_notice e)")
         (simp_all add: run_def finish_def m q z totalOutdated_sum [symmetric]
            totalVulnerabilities_sum [symmetric])
  next
    case False
    note m = main_needs_analysis [OF tok loop False]
    have a: "analyses (trace (run w e cfg)) = [results]"
      by (simp add: run_def finish_def m q split: http.splits body.splits option.splits)
    have f: "mails (trace (run w e cfg)) = [full_report e analysis results]
        \<and> (\<exists>rest. console_only rest \<and> trace (run w e cfg) =
              t @ [AnalyzeCall results, SendMail (full_report e analysis results)] @ rest)"
      if k: "ANTHROPIC_API_KEY e = Some key"
        and c: "claude_api w key results = Response 200 (Usable analysis)"
      for key analysis
      by (cases "relay w e (full_report e analysis results)")
         (simp_all add: run_def finish_def m q k c)
    from False have nz: "\<not> (totalOutdated results = 0 \<and> totalVulnerabilities results = 0)"
      by blast
    from a have c1: "\<not> (mails (trace (run w e cfg)) = [short_notice e]
        \<and> analyses (trace (run w e cfg)) = [])"
      by simp
    show ?thesis
      using nz c1 a f totalOutdated_sum [of results] totalVulnerabilities_sum [of results]
      by blast
  qed
qed

theorem all_clean_iff_no_findings_witness:
  "mails (trace (run clean_world sample_env clean_config)) = [short_notice sample_env]
   \<and> analyses (trace (run clean_world sample_env clean_config)) = []
   \<and> exit_code (run clean_world sample_env clean_config) = 0
   \<and> analyses (trace (run (sample_world (Response 200 (Usable ''Update lodash first.''))) sample_env
         sample_config)) = [sample_results]
   \<and> mails (trace (run (sample_world (Response 200 (Usable ''Update lodash first.''))) sample_env
         sample_config)) = [full_report sample_env ''Update lodash first.'' sample_results]"
proof -
  let ?w = "sample_world (Response 200 (Usable ''Update lodash first.''))"
  have taken: "relay clean_world sample_env (short_notice sample_env) = None"
    by (simp add: clean_world_def relay_def createTransport_def)
  have key: "ANTHROPIC_API_KEY sample_env = Some ''sk-key''"
    by (simp add: sample_env_def)
  have reply: "claude_api ?w ''sk-key'' sample_results =
      Response 200 (Usable ''Update lodash first.'')"
    by (simp add: sample_world_def)
  from all_clean_iff_no_findings [OF sample_token clean_loop] sample_totals taken
  have clean: "mails (trace (run clean_world sample_env clean_config)) = [short_notice sample_env]
      \<and> analyses (trace (run clean_world sample_env clean_config)) = []
      \<and> exit_code (run clean_world sample_env clean_config) = 0"
    by simp
  from all_clean_iff_no_findings [OF sample_token sample_loop, of "Response 200 (Usable ''Update lodash first.'')"]
    sample_totals key reply
  have dirty: "analyses (trace (run ?w sample_env sample_config)) = [sample_results]
      \<and> mails (trace (run ?w sample_env sample_config)) =
          [full_report sample_env ''Update lodash first.'' sample_results]"
    by simp
  from clean dirty show ?thesis by simp
qed

text \<open>
  Claim C6. When the request to the AI endpoint is answered with a status other than
  200, the run exits with status 1 and no mail is handed to the relay: the trace ends
  with the call of the summarizer and the error line of the top-level handler.
\<close>

theorem analysis_failure_aborts_run:
  assumes tok: "GH_TOKEN e = Some token" "token \<noteq> []"
      and loop: "repo_loop w token (repos cfg) [] = (t, Resolved results)"
      and findings: "\<not> (totalVulnerabilities results = 0 \<and> totalOutdated results = 0)"
      and key: "ANTHROPIC_API_KEY e = Some key"
      and status: "claude_api w key results = Response statusCode b" "statusCode \<noteq> 200"
  shows "exit_code (run w e cfg) = 1
       \<and> mails (trace (run w e cfg)) = []
       \<and> trace (run w e cfg) =
           t @ [AnalyzeCall results, ConsoleError (TopLevelError (ClaudeApiError statusCode))]"
proof -
  from loop have q: "console_only t" by (rule loop_trace_quiet)
  have m: "main w e cfg = (t @ [AnalyzeCall results], Rejected (ClaudeApiError statusCode))"
    by (simp add: main_needs_analysis [OF tok loop findings] key status)
  show ?thesis
    by (simp add: run_def finish_def m q)
qed

theorem analysis_failure_aborts_run_witness:
  "exit_code (run (sample_world (Response 529 Unusable)) sample_env sample_config) = 1
   \<and> mails (trace (run (sample_world (Response 529 Unusable)) sample_env sample_config)) = []
   \<and> trace (run (sample_world (Response 529 Unusable)) sample_env sample_config) =
       [ConsoleLog (CouldNotFetchPackageJson ''acme/api'' TypeError),
        AnalyzeCall sample_results,
        ConsoleError (TopLevelError (ClaudeApiError 529))]"
proof -
  let ?w = "sample_world (Response 529 Unusable)"
  have findings: "\<not> (totalVulnerabilities sample_results = 0 \<and> totalOutdated sample_results = 0)"
    by (simp add: sample_totals)
  have key: "ANTHROPIC_API_KEY sample_env = Some ''sk-key''"
    by (simp add: sample_env_def)
  have status: "claude_api ?w ''sk-key'' sample_results = Response 529 Unusable"
    by (simp add: sample_world_def)
  have ne: "(529::nat) \<noteq> 200" by simp
  from analysis_failure_aborts_run [OF sample_token sample_loop findings key status ne]
  show ?thesis by simp
qed

section \<open>Whole runs\<close>

text \<open>
  A run without the token, and the three end-to-end scenarios: one outdated dependency
  and no advisory, nothing to report, and an AI endpoint that answers with an error.
\<close>

lemma missing_token_exits:
  "GH_TOKEN e = None \<or> GH_TOKEN e = Some [] \<Longrightarrow>
   run w e cfg = \<lparr>trace = [ConsoleError TokenNotSet], exit_code = 1\<rparr>"
  by (auto simp: run_def main_def finish_def)

lemma scenario_outdated_dependency:
  "run scenario_world sample_env clean_config =
     \<lparr>trace = [AnalyzeCall scenario_results,
               SendMail \<lparr>mail_from = Some ''bot@example.org'', mail_to = Some ''dev@example.org'',
                         mail_subject = PackageUpdates 1,
                         mail_content = FullReport ''Update left-pad.'' scenario_results\<rparr>],
      exit_code = 0\<rparr>"
  by (simp add: run_def finish_def main_def sample_env_def clean_config_def scenario_world_def
      check_repo_def getPackageJson_def getSecurityAlerts_def githubRequest_def
      checkOutdatedPackages_def mergedDependencies_def spread_def one_dep_def registry_latest_def
      getNpmPackageInfo_def cleanVersion_def totalVulnerabilities_def totalOutdated_def
      analyzeWithClaude_def sendEmail_def sendMail_def createTransport_def emailSubject_def
      criticalSecurityIssues_def scenario_results_def)

lemma scenario_all_clean:
  "run clean_world sample_env clean_config =
     \<lparr>trace = [SendMail \<lparr>mail_from = Some ''bot@example.org'', mail_to = Some ''dev@example.org'',
                         mail_subject = AllSecureUpToDate, mail_content = ShortNotice\<rparr>],
      exit_code = 0\<rparr>"
  by (simp add: run_def finish_def main_def sample_env_def clean_config_def clean_world_def
      check_repo_def getPackageJson_def getSecurityAlerts_def githubRequest_def
      checkOutdatedPackages_def mergedDependencies_def spread_def one_dep_def registry_latest_def
      getNpmPackageInfo_def cleanVersion_def totalVulnerabilities_def totalOutdated_def
      sendMail_def createTransport_def)

lemma scenario_analysis_fails:
  "run (scenario_world\<lparr>claude_api := (\<lambda>key rs. Response 500 Unusable)\<rparr>) sample_env clean_config =
     \<lparr>trace = [AnalyzeCall scenario_results, ConsoleError (TopLevelError (ClaudeApiError 500))],
      exit_code = 1\<rparr>"
  by (simp add: run_def finish_def main_def sample_env_def clean_config_def scenario_world_def
      check_repo_def getPackageJson_def getSecurityAlerts_def githubRequest_def
      checkOutdatedPackages_def mergedDependencies_def spread_def one_dep_def registry_latest_def
      getNpmPackageInfo_def cleanVersion_def totalVulnerabilities_def totalOutdated_def
      analyzeWithClaude_def scenario_results_def)

section \<open>The earlier revision\<close>

text \<open>
  Before the security alerts were added, a repository whose manifest fetch failed pushed
  no report, and the short notice depended on the outdated total alone.
\<close>

lemma earlier_revision_skips_failed_manifest:
  assumes "manifest_fetch_fails (github_contents w token r)"
  shows "\<exists>e. check_repo_v1 w token r =
           ([ConsoleLog (CouldNotFetchPackageJson r e)], Resolved None)"
  using assms
  by (auto simp: manifest_fetch_fails_def check_repo_v1_def getPackageJson_v1_def
      githubRequest_v1_def split: http.splits body.splits)

lemma earlier_revision_sample_loop:
  "repo_loop_v1 sample_world_v1 ''ghp_token'' (repos sample_config) [] =
     ([ConsoleLog (CouldNotFetchPackageJson ''acme/api'' (GitHubApiError 404))],
      Resolved [sample_report])"
  by (simp add: sample_config_def sample_world_v1_def check_repo_v1_def getPackageJson_v1_def
      githubRequest_v1_def sample_check)

lemma earlier_revision_all_clean:
  assumes "GH_TOKEN e = Some token" and "token \<noteq> []"
      and "repo_loop_v1 w token (repos cfg) [] = (t, Resolved results)"
      and "totalOutdated results = 0"
  shows "main_v1 w e cfg =
     (t @ [SendMail \<lparr>mail_from = GMAIL_USER e, mail_to = RECIPIENT_EMAIL e,
                        mail_subject = AllUpToDate, mail_content = ShortNotice\<rparr>],
      case relay w e \<lparr>mail_from = GMAIL_USER e, mail_to = RECIPIENT_EMAIL e,
                       mail_subject = AllUpToDate, mail_content = ShortNotice\<rparr> of
        None \<Rightarrow> Resolved () | Some err \<Rightarrow> Rejected err)"
  using assms by (simp add: main_v1_def sendMail_def relay_def)

lemma earlier_revision_needs_analysis:
  assumes "GH_TOKEN e = Some token" and "token \<noteq> []"
      and "repo_loop_v1 w token (repos cfg) [] = (t, Resolved results)"
      and "totalOutdated results \<noteq> 0"
  shows "\<exists>rest x. main_v1 w e cfg = (t @ AnalyzeCall results # rest, x)"
  using assms
  by (simp add: main_v1_def analyzeWithClaude_def sendEmail_v1_def sendMail_def
      split: http.splits body.splits option.splits)

lemma earlier_revision_sample_run:
  "run_v1 sample_world_v1 sample_env sample_config =
     \<lparr>trace = [ConsoleLog (CouldNotFetchPackageJson ''acme/api'' (GitHubApiError 404)),
               AnalyzeCall [sample_report],
               SendMail \<lparr>mail_from = Some ''bot@example.org'', mail_to = Some ''dev@example.org'',
                         mail_subject = UpdateReport 1,
                         mail_content = FullReport ''Update left-pad.'' [sample_report]\<rparr>],
      exit_code = 0\<rparr>"
proof -
  have c: "claude_api sample_world_v1 = (\<lambda>key rs. Response 200 (Usable ''Update left-pad.''))"
    and m: "smtp sample_world_v1 = (\<lambda>user pass m. None)"
    by (simp_all add: sample_world_v1_def)
  show ?thesis
    by (simp add: run_v1_def finish_def main_v1_def sample_env_def earlier_revision_sample_loop
        totalOutdated_def sample_report_def analyzeWithClaude_def c m
        sendEmail_v1_def sendMail_def createTransport_def)
qed

end
